theory Spec2Isabelle
  imports Complex_Main "HOL-Library.Sublist"
begin

section \<open>Data model\<close>

text \<open>
  The inference pipeline of \<^verbatim>\<open>src/inference_pipeline/inference.py\<close> and its HTTP
  endpoint in \<^verbatim>\<open>src/api/main.py\<close> work on pandas data frames. A cell of a frame is a
  number, a string or the missing value (pandas' NaN, JSON's null). A frame is
  column-major, as in pandas: the number of rows (the length of the index) and the
  ordered list of labelled columns. The row count is kept apart from the columns because a
  frame with no column still has an index, and \<^verbatim>\<open>reindex\<close> fills new columns to that
  length.
\<close>

datatype cell = Num real | Str string | NaN

record frame =
  nrows :: nat
  cols :: "(string \<times> cell list) list"

definition columns :: "frame \<Rightarrow> string list" where
  "columns df = map fst (cols df)"

text \<open>
  Frames built by \<^verbatim>\<open>pd.DataFrame(list of dicts)\<close> and by \<^verbatim>\<open>pd.read_csv\<close> have unique
  column labels and columns as long as the index; item assignment keeps both.
\<close>

subsection \<open>Exceptions\<close>

text \<open>
  A raised exception is its class name and its message. \<^verbatim>\<open>except Exception\<close> catches
  every class but the ones that derive from \<^verbatim>\<open>BaseException\<close> alone.
\<close>

datatype error = Raised (exc_class: string) (message: string)

definition is_FileNotFoundError :: "error \<Rightarrow> bool" where
  "is_FileNotFoundError e \<longleftrightarrow> exc_class e = ''FileNotFoundError''"

definition is_Exception :: "error \<Rightarrow> bool" where
  "is_Exception e \<longleftrightarrow>
     exc_class e \<notin> set [''BaseException'', ''KeyboardInterrupt'', ''SystemExit'', ''GeneratorExit'']"

subsection \<open>Traces\<close>

text \<open>
  What a run does besides returning is recorded as a trace: every call the code makes on
  a frame, a series, a path or an artifact, and every log message, each with the program
  point (module and source line) it stands at. Keyword arguments of log messages are not
  modelled.
\<close>

datatype point = Inference nat | Api nat

datatype level = INFO | WARNING | ERROR

datatype event = Call point string "frame list" | Log point level string

type_synonym 'a comp = "event list \<times> (error + 'a)"

definition ret :: "'a \<Rightarrow> 'a comp" where
  "ret x = ([], Inr x)"

definition raise :: "error \<Rightarrow> 'a comp" where
  "raise e = ([], Inl e)"

definition lift :: "error + 'a \<Rightarrow> 'a comp" where
  "lift r = ([], r)"

definition bind :: "'a comp \<Rightarrow> ('a \<Rightarrow> 'b comp) \<Rightarrow> 'b comp" where
  "bind m f =
     (case m of
        (t, Inl e) \<Rightarrow> (t, Inl e)
      | (t, Inr x) \<Rightarrow> (case f x of (t', r) \<Rightarrow> (t @ t', r)))"

definition try_except :: "'a comp \<Rightarrow> (error \<Rightarrow> 'a comp) \<Rightarrow> 'a comp" where
  "try_except body handler =
     (case body of
        (t, Inl e) \<Rightarrow> (case handler e of (t', r) \<Rightarrow> (t @ t', r))
      | (t, Inr x) \<Rightarrow> (t, Inr x))"

definition call :: "point \<Rightarrow> string \<Rightarrow> frame list \<Rightarrow> error + 'a \<Rightarrow> 'a comp" where
  "call p name args r = ([Call p name args], r)"

definition log :: "point \<Rightarrow> level \<Rightarrow> string \<Rightarrow> unit comp" where
  "log p l msg = ([Log p l msg], Inr ())"

subsection \<open>Files and artifacts\<close>

text \<open>
  The three pickled artifacts: the frequency encoder is a mapping from codes to
  frequencies, the target encoder an object with a \<^verbatim>\<open>transform\<close> method, the model an
  object with a \<^verbatim>\<open>predict\<close> method. What the two methods compute is not part of the
  repository; they are carried by the artifact. A file is what \<^verbatim>\<open>joblib.load\<close> and
  \<^verbatim>\<open>pd.read_csv(..., nrows=1).columns\<close> yield on it, and a file system maps paths to
  files.
\<close>

datatype artifact =
    FreqMap "cell \<Rightarrow> cell option"
  | TargetEncoder "cell list \<Rightarrow> error + cell list"
  | Model "frame \<Rightarrow> error + cell list"

datatype disk_file = File (unpickled: "error + artifact") (csv_columns: "error + string list")

type_synonym filesystem = "string \<Rightarrow> disk_file option"

definition exists :: "filesystem \<Rightarrow> string \<Rightarrow> bool" where
  "exists fs p \<longleftrightarrow> fs p \<noteq> None"

definition load :: "filesystem \<Rightarrow> string \<Rightarrow> error + artifact" where
  "load fs p =
     (case fs p of
        None \<Rightarrow> Inl (Raised ''FileNotFoundError'' p)
      | Some f \<Rightarrow> unpickled f)"

definition read_csv_columns :: "filesystem \<Rightarrow> string \<Rightarrow> error + string list" where
  "read_csv_columns fs p =
     (case fs p of
        None \<Rightarrow> Inl (Raised ''FileNotFoundError'' p)
      | Some f \<Rightarrow> csv_columns f)"

subsection \<open>The pandas operations the pipeline uses\<close>

text \<open>\<^verbatim>\<open>df[c]\<close>: the column, or KeyError.\<close>

definition getitem :: "frame \<Rightarrow> string \<Rightarrow> error + cell list" where
  "getitem df c =
     (case map_of (cols df) c of
        None \<Rightarrow> Inl (Raised ''KeyError'' c)
      | Some v \<Rightarrow> Inr v)"

text \<open>
  \<^verbatim>\<open>df[c] = values\<close>: an existing column is replaced where it stands, a new one is
  appended.
\<close>

fun assign :: "string \<Rightarrow> cell list \<Rightarrow> (string \<times> cell list) list \<Rightarrow> (string \<times> cell list) list" where
  "assign c v [] = [(c, v)]"
| "assign c v (p # ps) = (if fst p = c then (c, v) # ps else p # assign c v ps)"

text \<open>Assigning a series taken from the same frame: aligned on the shared index.\<close>

definition setitem :: "frame \<Rightarrow> string \<Rightarrow> cell list \<Rightarrow> frame" where
  "setitem df c v = df\<lparr>cols := assign c v (cols df)\<rparr>"

text \<open>Assigning a list or an array: its length must be that of the index.\<close>

definition setitem_values :: "frame \<Rightarrow> string \<Rightarrow> cell list \<Rightarrow> error + frame" where
  "setitem_values df c v =
     (if length v = nrows df then Inr (setitem df c v)
      else Inl (Raised ''ValueError'' ''Length of values does not match length of index''))"

text \<open>
  \<^verbatim>\<open>df.drop(columns=names)\<close>, which raises KeyError on a label that is not there, and
  \<^verbatim>\<open>df.drop(columns=names, errors="ignore")\<close>, which does not.
\<close>

definition drop_columns :: "frame \<Rightarrow> string list \<Rightarrow> bool \<Rightarrow> error + frame" where
  "drop_columns df names ignore_errors =
     (if \<not> ignore_errors \<and> \<not> set names \<subseteq> set (columns df)
      then Inl (Raised ''KeyError'' (concat names))
      else Inr (df\<lparr>cols := filter (\<lambda>cv. fst cv \<notin> set names) (cols df)\<rparr>))"

text \<open>
  \<^verbatim>\<open>df.reindex(columns=labels, fill_value=v)\<close>: the frame with exactly the given
  labels, in the given order; a label the frame lacks becomes a column of the fill
  value. pandas refuses to reindex an axis that has duplicate labels.
\<close>

definition reindex :: "frame \<Rightarrow> string list \<Rightarrow> cell \<Rightarrow> error + frame" where
  "reindex df labels fill_value =
     (if distinct (columns df)
      then Inr (df\<lparr>cols :=
             map (\<lambda>c. (c, case map_of (cols df) c of
                             Some v \<Rightarrow> v
                           | None \<Rightarrow> replicate (nrows df) fill_value)) labels\<rparr>)
      else Inl (Raised ''ValueError'' ''cannot reindex on an axis with duplicate labels''))"

text \<open>
  \<^verbatim>\<open>series.map(arg)\<close> with a mapping: a value the mapping lacks becomes NaN. An object
  that is neither a mapping nor callable is a TypeError.
\<close>

definition series_map :: "cell list \<Rightarrow> artifact \<Rightarrow> error + cell list" where
  "series_map s arg =
     (case arg of
        FreqMap m \<Rightarrow> Inr (map (\<lambda>v. case m v of None \<Rightarrow> NaN | Some w \<Rightarrow> w) s)
      | _ \<Rightarrow> Inl (Raised ''TypeError'' ''object is not callable''))"

definition fillna :: "cell list \<Rightarrow> cell \<Rightarrow> cell list" where
  "fillna s v = map (\<lambda>x. if x = NaN then v else x) s"

text \<open>\<^verbatim>\<open>df.empty\<close>: some axis has length 0.\<close>

definition empty :: "frame \<Rightarrow> bool" where
  "empty df \<longleftrightarrow> nrows df = 0 \<or> cols df = []"

section \<open>The inference module\<close>

text \<open>
  The five helpers that \<^verbatim>\<open>inference.py\<close> imports from \<^verbatim>\<open>src.feature_pipeline\<close> are
  parameters of the model: each takes frames and returns frames or raises.
\<close>

record helpers =
  clean_and_merge :: "frame \<Rightarrow> error + frame"
  drop_duplicates :: "frame \<Rightarrow> error + frame"
  remove_outliers :: "frame \<Rightarrow> error + frame"
  add_date_features :: "frame \<Rightarrow> error + frame"
  drop_unused_columns :: "frame \<Rightarrow> frame \<Rightarrow> error + (frame \<times> frame)"

text \<open>
  Lines 43-50: the training schema is read once, when the module is loaded, from the
  header of the training features file, without the target column; it is None when the
  file is not there.
\<close>

definition load_train_feature_columns :: "filesystem \<Rightarrow> string \<Rightarrow> error + string list option" where
  "load_train_feature_columns fs TRAIN_FE_PATH =
     (if exists fs TRAIN_FE_PATH
      then (case read_csv_columns fs TRAIN_FE_PATH of
              Inl e \<Rightarrow> Inl e
            | Inr train_cols \<Rightarrow> Inr (Some (filter (\<lambda>c. c \<noteq> ''price'') train_cols)))
      else Inr None)"

text \<open>
  The names bound in the module's global scope: its imports and its assignments. A name
  that is neither there nor a builtin raises NameError when it is evaluated.
\<close>

definition inference_globals :: "string list" where
  "inference_globals =
     [''annotations'', ''argparse'', ''Path'', ''pd'', ''load'', ''settings'', ''get_logger'',
      ''logger'', ''add_date_features'', ''drop_unused_columns'', ''clean_and_merge'',
      ''drop_duplicates'', ''remove_outliers'', ''DEFAULT_MODEL'', ''DEFAULT_FREQ_ENCODER'',
      ''DEFAULT_TARGET_ENCODER'', ''TRAIN_FE_PATH'', ''DEFAULT_OUTPUT'', ''_train_cols'',
      ''TRAIN_FEATURE_COLUMNS'', ''predict'']"

text \<open>\<^verbatim>\<open>raise Name(msg)\<close> for an exception class that is not a builtin.\<close>

definition raise_named :: "string \<Rightarrow> string \<Rightarrow> 'a comp" where
  "raise_named name msg =
     (if name \<in> set inference_globals then raise (Raised name msg)
      else raise (Raised ''NameError''
             (''name '' @ [CHR 0x27] @ name @ [CHR 0x27] @ '' is not defined'')))"

text \<open>Step 1, lines 80-84.\<close>

definition preprocess :: "helpers \<Rightarrow> frame \<Rightarrow> frame comp" where
  "preprocess h input_df =
     bind (call (Inference 81) ''clean_and_merge'' [input_df] (clean_and_merge h input_df)) (\<lambda>df.
     bind (call (Inference 82) ''drop_duplicates'' [df] (drop_duplicates h df)) (\<lambda>df.
     bind (call (Inference 83) ''remove_outliers'' [df] (remove_outliers h df)) (\<lambda>df.
     bind (log (Inference 84) INFO ''Preprocessing completed'') (\<lambda>_.
     ret df))))"

text \<open>Step 2, lines 86-89.\<close>

definition date_features :: "helpers \<Rightarrow> frame \<Rightarrow> frame comp" where
  "date_features h df =
     (if ''date'' \<in> set (columns df)
      then bind (call (Inference 88) ''add_date_features'' [df] (add_date_features h df)) (\<lambda>df.
           bind (log (Inference 89) INFO ''Date features added'') (\<lambda>_.
           ret df))
      else ret df)"

text \<open>Step 3, lines 92-97: frequency encoding of the zipcode.\<close>

definition frequency_encoding :: "filesystem \<Rightarrow> string \<Rightarrow> frame \<Rightarrow> frame comp" where
  "frequency_encoding fs freq_encoder_path df =
     bind (call (Inference 93) ''exists'' [] (Inr (exists fs freq_encoder_path))) (\<lambda>there.
     if there \<and> ''zipcode'' \<in> set (columns df)
     then bind (call (Inference 94) ''load'' [] (load fs freq_encoder_path)) (\<lambda>freq_map.
          bind (lift (getitem df ''zipcode'')) (\<lambda>zipcode.
          bind (call (Inference 95) ''map'' [] (series_map zipcode freq_map)) (\<lambda>mapped.
          bind (call (Inference 95) ''fillna'' [] (Inr (fillna mapped (Num 0)))) (\<lambda>filled.
          bind (ret (setitem df ''zipcode_freq'' filled)) (\<lambda>df.
          bind (call (Inference 96) ''drop'' [df] (drop_columns df [''zipcode''] True)) (\<lambda>df.
          bind (log (Inference 97) INFO ''Frequency encoding applied'') (\<lambda>_.
          ret df)))))))
     else ret df)"

text \<open>
  Step 3, lines 99-104: target encoding of the city. The attribute \<^verbatim>\<open>transform\<close> is
  looked up before the argument is evaluated; only a target encoder has it. The result
  is taken as an array of values.
\<close>

definition transform :: "artifact \<Rightarrow> error + (cell list \<Rightarrow> error + cell list)" where
  "transform a =
     (case a of
        TargetEncoder f \<Rightarrow> Inr f
      | _ \<Rightarrow> Inl (Raised ''AttributeError'' ''transform''))"

definition target_encoding :: "filesystem \<Rightarrow> string \<Rightarrow> frame \<Rightarrow> frame comp" where
  "target_encoding fs target_encoder_path df =
     bind (call (Inference 100) ''exists'' [] (Inr (exists fs target_encoder_path))) (\<lambda>there.
     if there \<and> ''city_full'' \<in> set (columns df)
     then bind (call (Inference 101) ''load'' [] (load fs target_encoder_path)) (\<lambda>target_encoder.
          bind (lift (transform target_encoder)) (\<lambda>f.
          bind (lift (getitem df ''city_full'')) (\<lambda>city_full.
          bind (call (Inference 102) ''transform'' [] (f city_full)) (\<lambda>encoded.
          bind (lift (setitem_values df ''city_full_encoded'' encoded)) (\<lambda>df.
          bind (call (Inference 103) ''drop'' [df] (drop_columns df [''city_full''] True)) (\<lambda>df.
          bind (log (Inference 104) INFO ''Target encoding applied'') (\<lambda>_.
          ret df)))))))
     else ret df)"

text \<open>Lines 106-107: the leakage columns are dropped by the helper, on two copies.\<close>

definition drop_leakage :: "helpers \<Rightarrow> frame \<Rightarrow> frame comp" where
  "drop_leakage h df =
     bind (call (Inference 107) ''copy'' [df] (Inr df)) (\<lambda>a.
     bind (call (Inference 107) ''copy'' [df] (Inr df)) (\<lambda>b.
     bind (call (Inference 107) ''drop_unused_columns'' [a, b] (drop_unused_columns h a b)) (\<lambda>r.
     ret (fst r))))"

text \<open>Step 4, lines 109-113: the actual prices, when the frame has them.\<close>

definition separate_actuals :: "frame \<Rightarrow> (cell list option \<times> frame) comp" where
  "separate_actuals df =
     (if ''price'' \<in> set (columns df)
      then bind (lift (getitem df ''price'')) (\<lambda>price.
           bind (call (Inference 112) ''tolist'' [] (Inr price)) (\<lambda>y_true.
           bind (call (Inference 113) ''drop'' [df] (drop_columns df [''price''] False)) (\<lambda>df.
           ret (Some y_true, df))))
      else ret (None, df))"

text \<open>Step 5, lines 115-121: alignment with the training schema, when there is one.\<close>

definition align_schema :: "string list option \<Rightarrow> frame \<Rightarrow> frame comp" where
  "align_schema TRAIN_FEATURE_COLUMNS df =
     (case TRAIN_FEATURE_COLUMNS of
        None \<Rightarrow> ret df
      | Some train_cols \<Rightarrow>
          bind (call (Inference 117) ''reindex'' [df] (reindex df train_cols (Num 0))) (\<lambda>df.
          bind (log (Inference 118) INFO ''Features aligned with training schema'') (\<lambda>_.
          ret df)))"

text \<open>
  Step 6, lines 123-133: the model is loaded and asked for its predictions inside a
  \<^verbatim>\<open>try\<close>; the two handlers name the exception classes they want to raise.
\<close>

definition model_predict :: "artifact \<Rightarrow> frame \<Rightarrow> cell list comp" where
  "model_predict model df =
     (case model of
        Model f \<Rightarrow> call (Inference 126) ''predict'' [df] (f df)
      | _ \<Rightarrow> raise (Raised ''AttributeError'' ''predict''))"

definition load_and_predict :: "filesystem \<Rightarrow> string \<Rightarrow> frame \<Rightarrow> cell list comp" where
  "load_and_predict fs model_path df =
     try_except
       (bind (call (Inference 125) ''load'' [] (load fs model_path)) (\<lambda>model.
        bind (model_predict model df) (\<lambda>preds.
        bind (log (Inference 127) INFO ''Predictions generated'') (\<lambda>_.
        ret preds))))
       (\<lambda>e.
          if is_FileNotFoundError e
          then bind (log (Inference 129) ERROR ''Model file not found'') (\<lambda>_.
               raise_named ''ModelNotFoundError'' (''Model not found at '' @ model_path))
          else if is_Exception e
          then bind (log (Inference 132) ERROR ''Prediction failed'') (\<lambda>_.
               raise_named ''PredictionError'' (''Prediction failed: '' @ message e))
          else raise e)"

text \<open>Step 7, lines 135-142.\<close>

definition build_output :: "frame \<Rightarrow> cell list \<Rightarrow> cell list option \<Rightarrow> frame comp" where
  "build_output df preds y_true =
     bind (call (Inference 136) ''copy'' [df] (Inr df)) (\<lambda>out.
     bind (lift (setitem_values out ''predicted_price'' preds)) (\<lambda>out.
     bind (case y_true of
             None \<Rightarrow> ret out
           | Some y \<Rightarrow> lift (setitem_values out ''actual_price'' y)) (\<lambda>out.
     bind (log (Inference 141) INFO ''Inference completed'') (\<lambda>_.
     ret out))))"

text \<open>
  \<^verbatim>\<open>predict\<close>, lines 56-142, in two halves: the frame is engineered up to the leakage
  drop (lines 80-107), then scored (lines 109-142).
\<close>

definition engineer :: "helpers \<Rightarrow> filesystem \<Rightarrow> frame \<Rightarrow> string \<Rightarrow> string \<Rightarrow> frame comp" where
  "engineer h fs input_df freq_encoder_path target_encoder_path =
     bind (preprocess h input_df) (\<lambda>df.
     bind (date_features h df) (\<lambda>df.
     bind (frequency_encoding fs freq_encoder_path df) (\<lambda>df.
     bind (target_encoding fs target_encoder_path df) (\<lambda>df.
     drop_leakage h df))))"

definition score :: "filesystem \<Rightarrow> string list option \<Rightarrow> string \<Rightarrow> frame \<Rightarrow> frame comp" where
  "score fs TRAIN_FEATURE_COLUMNS model_path df =
     bind (separate_actuals df) (\<lambda>ydf.
     bind (align_schema TRAIN_FEATURE_COLUMNS (snd ydf)) (\<lambda>df.
     bind (load_and_predict fs model_path df) (\<lambda>preds.
     build_output df preds (fst ydf))))"

definition predict ::
  "helpers \<Rightarrow> filesystem \<Rightarrow> string list option \<Rightarrow> frame \<Rightarrow> string \<Rightarrow> string \<Rightarrow> string \<Rightarrow> frame comp" where
  "predict h fs TRAIN_FEATURE_COLUMNS input_df model_path freq_encoder_path target_encoder_path =
     bind (log (Inference 78) INFO ''Starting inference'') (\<lambda>_.
     bind (engineer h fs input_df freq_encoder_path target_encoder_path) (\<lambda>df.
     score fs TRAIN_FEATURE_COLUMNS model_path df))"

text \<open>The matrices that reached the model's \<^verbatim>\<open>predict\<close> in a run, line 126.\<close>

fun model_inputs :: "event list \<Rightarrow> frame list" where
  "model_inputs [] = []"
| "model_inputs (Call p name args # t) =
     (if p = Inference 126 \<and> name = ''predict'' then args @ model_inputs t else model_inputs t)"
| "model_inputs (Log p l msg # t) = model_inputs t"

section \<open>The prediction endpoint\<close>

text \<open>
  A JSON record is the list of its members; Python's dict keeps the place of a key's
  first occurrence and the value of its last. \<^verbatim>\<open>pd.DataFrame(data)\<close> has one row per
  record and the union of the keys as columns, in the order they are first seen; a key a
  record lacks is the missing value there.
\<close>

type_synonym json_record = "(string \<times> cell) list"

definition first_seen :: "string list \<Rightarrow> string list" where
  "first_seen ks = rev (remdups (rev ks))"

definition DataFrame :: "json_record list \<Rightarrow> frame" where
  "DataFrame data =
     \<lparr>nrows = length data,
      cols = map (\<lambda>c. (c, map (\<lambda>r. case map_of (rev r) c of None \<Rightarrow> NaN | Some v \<Rightarrow> v) data))
                 (first_seen (concat (map (map fst) data)))\<rparr>"

text \<open>
  \<^verbatim>\<open>series.astype(float)\<close>: numbers and the missing value stay, a string goes through
  Python's \<^verbatim>\<open>float\<close>, a builtin taken as a parameter, which raises ValueError on a
  string that is no number.
\<close>

fun astype_float :: "(string \<Rightarrow> cell option) \<Rightarrow> cell list \<Rightarrow> error + cell list" where
  "astype_float py_float [] = Inr []"
| "astype_float py_float (x # xs) =
     (case (case x of
              Str s \<Rightarrow> (case py_float s of
                          None \<Rightarrow> Inl (Raised ''ValueError'' (''could not convert string to float: '' @ s))
                        | Some y \<Rightarrow> Inr y)
            | _ \<Rightarrow> Inr x) of
        Inl e \<Rightarrow> Inl e
      | Inr y \<Rightarrow> (case astype_float py_float xs of
                    Inl e \<Rightarrow> Inl e
                  | Inr ys \<Rightarrow> Inr (y # ys)))"

record settings =
  model_path :: string
  freq_encoder_path :: string
  target_encoder_path :: string

text \<open>
  What the endpoint answers: an HTTP error with its status code and detail, or the
  mapping with the predictions and, when they are there, the actual values.
\<close>

datatype response = HTTPException nat string | Predictions "cell list" "cell list option"

text \<open>\<^verbatim>\<open>predict_batch\<close>, lines 140-187 of \<^verbatim>\<open>main.py\<close>, after the API key check.\<close>

definition predict_batch ::
  "helpers \<Rightarrow> filesystem \<Rightarrow> string list option \<Rightarrow> (string \<Rightarrow> cell option) \<Rightarrow> settings
     \<Rightarrow> json_record list \<Rightarrow> response comp" where
  "predict_batch h fs TRAIN_FEATURE_COLUMNS py_float s data =
     bind (log (Api 157) INFO ''Prediction request received'') (\<lambda>_.
     bind (call (Api 159) ''exists'' [] (Inr (exists fs (model_path s)))) (\<lambda>there.
     if \<not> there
     then bind (log (Api 160) ERROR ''Model not found'') (\<lambda>_.
          ret (HTTPException 500 (''Model not found at '' @ model_path s)))
     else bind (call (Api 165) ''DataFrame'' [] (Inr (DataFrame data))) (\<lambda>df.
          if empty df
          then bind (log (Api 167) WARNING ''Empty data provided'') (\<lambda>_.
               ret (HTTPException 400 ''No data provided''))
          else try_except
                 (bind (predict h fs TRAIN_FEATURE_COLUMNS df
                          (model_path s) (freq_encoder_path s) (target_encoder_path s)) (\<lambda>preds_df.
                  bind (lift (getitem preds_df ''predicted_price'')) (\<lambda>predicted.
                  bind (call (Api 178) ''astype'' [] (astype_float py_float predicted)) (\<lambda>predicted.
                  bind (call (Api 178) ''tolist'' [] (Inr predicted)) (\<lambda>predictions.
                  bind (if ''actual_price'' \<in> set (columns preds_df)
                        then bind (lift (getitem preds_df ''actual_price'')) (\<lambda>actual.
                             bind (call (Api 180) ''astype'' [] (astype_float py_float actual)) (\<lambda>actual.
                             bind (call (Api 180) ''tolist'' [] (Inr actual)) (\<lambda>actuals.
                             ret (Some actuals))))
                        else ret None) (\<lambda>actuals.
                  bind (log (Api 182) INFO ''Prediction completed'') (\<lambda>_.
                  ret (Predictions predictions actuals))))))))
                 (\<lambda>e. if is_Exception e
                      then bind (log (Api 186) ERROR ''Prediction failed'') (\<lambda>_.
                           ret (HTTPException 500 ''Prediction failed''))
                      else raise e))))"

section \<open>Stages of a run\<close>

text \<open>
  An event stands at a source line. The body of \<^verbatim>\<open>predict\<close> is laid out in blocks,
  one per stage of the pipeline; an event belongs to the stage whose block holds its
  line. The stages of a trace are the stages of its events, in the order they occur,
  each maximal run of one stage counted once.
\<close>

fun line_of :: "event \<Rightarrow> nat" where
  "line_of (Call p name args) = (case p of Inference n \<Rightarrow> n | Api n \<Rightarrow> n)"
| "line_of (Log p l msg) = (case p of Inference n \<Rightarrow> n | Api n \<Rightarrow> n)"

datatype stage =
    Cleaner | Feature_Enricher | Frequency_Encoder | Target_Encoder | Column_Pruner
  | Price_Extraction | Schema_Aligner | Predictor | Output_Assembly


definition stage_at :: "nat \<Rightarrow> stage option" where
  "stage_at l =
     (if 80 \<le> l \<and> l \<le> 84 then Some Cleaner
      else if 86 \<le> l \<and> l \<le> 89 then Some Feature_Enricher
      else if 92 \<le> l \<and> l \<le> 97 then Some Frequency_Encoder
      else if 99 \<le> l \<and> l \<le> 104 then Some Target_Encoder
      else if 106 \<le> l \<and> l \<le> 107 then Some Column_Pruner
      else if 109 \<le> l \<and> l \<le> 113 then Some Price_Extraction
      else if 115 \<le> l \<and> l \<le> 121 then Some Schema_Aligner
      else if 123 \<le> l \<and> l \<le> 133 then Some Predictor
      else if 135 \<le> l \<and> l \<le> 142 then Some Output_Assembly
      else None)"



text \<open>A run stays between two lines, and its events stand in source order.\<close>

definition runs_in :: "nat \<Rightarrow> nat \<Rightarrow> 'a comp \<Rightarrow> bool" where
  "runs_in lo hi m \<longleftrightarrow>
     sorted (map line_of (fst m)) \<and> (\<forall>e \<in> set (fst m). lo \<le> line_of e \<and> line_of e \<le> hi)"

text \<open>Helpers that hand their input back, for concrete runs.\<close>

definition plain_helpers :: helpers where
  "plain_helpers =
     \<lparr>clean_and_merge = Inr, drop_duplicates = Inr, remove_outliers = Inr,
      add_date_features = Inr, drop_unused_columns = (\<lambda>a b. Inr (a, b))\<rparr>"

section \<open>The feature pipeline, from the specification\<close>

text \<open>
  The module \<^verbatim>\<open>src.feature_pipeline\<close> is not among the sources. The round trip of
  section 8 of the specification runs through its five functions, so they are written
  here from sections 4.1, 4.2 and 4.4 of the specification. What the specification
  leaves to policy (the acceptable ranges, the leakage columns) is a parameter.
\<close>

text \<open>
  Modelled from the spec: the rows of a batch, which the Cleaner of section 4.1 removes
  and keeps (\<^verbatim>\<open>preprocess.py\<close> is missing). A row is its fields by column label.
\<close>

definition row :: "frame \<Rightarrow> nat \<Rightarrow> (string \<times> cell) list" where
  "row df i = map (\<lambda>cv. (fst cv, snd cv ! i)) (cols df)"

text \<open>
  Modelled from the spec: section 4.1, rows are "dropped entirely" and survivors keep
  their relative order (\<^verbatim>\<open>preprocess.py\<close> is missing): the frame of the chosen rows, in
  the order chosen.
\<close>

definition take_rows :: "frame \<Rightarrow> nat list \<Rightarrow> frame" where
  "take_rows df is =
     df\<lparr>nrows := length is, cols := map (\<lambda>cv. (fst cv, map (\<lambda>i. snd cv ! i) is)) (cols df)\<rparr>"

text \<open>
  Modelled from the spec: \<^verbatim>\<open>clean_and_merge\<close> of the missing \<^verbatim>\<open>preprocess.py\<close>.
  Section 4.1: "if a batch needs to be unioned with a secondary reference batch, rows are
  concatenated; no deduplication is assumed at this stage". \<^verbatim>\<open>predict\<close> passes the
  batch alone (line 81), so there is nothing to concatenate.
\<close>

definition spec_clean_and_merge :: "frame \<Rightarrow> error + frame" where
  "spec_clean_and_merge df = Inr df"

text \<open>
  Modelled from the spec: \<^verbatim>\<open>drop_duplicates\<close> of the missing \<^verbatim>\<open>preprocess.py\<close>.
  Section 4.1: "removes rows that are exact duplicates across all columns, keeping the
  first occurrence, preserving the relative order of survivors".
\<close>

definition spec_drop_duplicates :: "frame \<Rightarrow> error + frame" where
  "spec_drop_duplicates df =
     Inr (take_rows df
            (filter (\<lambda>i. list_all (\<lambda>j. row df j \<noteq> row df i) [0..<i]) [0..<nrows df]))"

text \<open>
  Modelled from the spec: \<^verbatim>\<open>remove_outliers\<close> of the missing \<^verbatim>\<open>preprocess.py\<close>.
  Section 4.1: "removes rows whose numeric fields fall outside a fixed acceptable range
  (policy-defined ...); rows failing the check are dropped entirely, not clipped". The
  policy is the parameter \<open>acceptable\<close>.
\<close>

definition spec_remove_outliers :: "((string \<times> cell) list \<Rightarrow> bool) \<Rightarrow> frame \<Rightarrow> error + frame" where
  "spec_remove_outliers acceptable df =
     Inr (take_rows df (filter (\<lambda>i. acceptable (row df i)) [0..<nrows df]))"

text \<open>
  Modelled from the spec: the reading of a calendar date, for \<^verbatim>\<open>add_date_features\<close> of
  the missing \<^verbatim>\<open>feature_engineering.py\<close>. Section 8 writes the date as
  \<^verbatim>\<open>2024-05-01\<close>: four digits of the year, two of the month, two of the day. Section
  4.2: an unparsable date fails.
\<close>

definition digit :: "char \<Rightarrow> nat option" where
  "digit c =
     map_of [(CHR ''0'', 0), (CHR ''1'', 1), (CHR ''2'', 2), (CHR ''3'', 3), (CHR ''4'', 4),
             (CHR ''5'', 5), (CHR ''6'', 6), (CHR ''7'', 7), (CHR ''8'', 8), (CHR ''9'', 9)] c"

text \<open>Modelled from the spec: the number a run of decimal digits stands for (see \<open>digit\<close>).\<close>

fun digits_value :: "nat \<Rightarrow> string \<Rightarrow> nat option" where
  "digits_value acc [] = Some acc"
| "digits_value acc (c # cs) =
     (case digit c of None \<Rightarrow> None | Some d \<Rightarrow> digits_value (10 * acc + d) cs)"

text \<open>
  Modelled from the spec: year, month and day of a date written as in section 8, for the
  missing \<^verbatim>\<open>add_date_features\<close>; None for a string that is no such date.
\<close>

definition parse_date :: "string \<Rightarrow> (nat \<times> nat \<times> nat) option" where
  "parse_date s =
     (if length s = 10 \<and> s ! 4 = CHR ''-'' \<and> s ! 7 = CHR ''-''
      then (case (digits_value 0 (take 4 s), digits_value 0 (take 2 (drop 5 s)),
                  digits_value 0 (drop 8 s)) of
              (Some y, Some m, Some d) \<Rightarrow>
                if 1 \<le> m \<and> m \<le> 12 \<and> 1 \<le> d \<and> d \<le> 31 then Some (y, m, d) else None
            | _ \<Rightarrow> None)
      else None)"

text \<open>
  Modelled from the spec: the date in a cell of the \<^verbatim>\<open>date\<close> column, for the missing
  \<^verbatim>\<open>add_date_features\<close>; a number or a missing value is no date.
\<close>

definition date_of_cell :: "cell \<Rightarrow> (nat \<times> nat \<times> nat) option" where
  "date_of_cell c = (case c of Str s \<Rightarrow> parse_date s | _ \<Rightarrow> None)"

text \<open>
  Modelled from the spec: \<^verbatim>\<open>add_date_features\<close> of the missing
  \<^verbatim>\<open>feature_engineering.py\<close>. Section 4.2: "derives a fixed set of calendar-derived
  numeric columns (year, month, day-of-week, etc.) from the date; does not remove the
  original date field", and "rows with an unparsable date value fail deterministically".
  The specification names the columns \<^verbatim>\<open>year\<close> and \<^verbatim>\<open>month\<close> (section 8); it names
  no other, and this definition derives these two.
\<close>

definition spec_add_date_features :: "frame \<Rightarrow> error + frame" where
  "spec_add_date_features df =
     (case getitem df ''date'' of
        Inl e \<Rightarrow> Inl e
      | Inr dates \<Rightarrow>
          (case those (map date_of_cell dates) of
             None \<Rightarrow> Inl (Raised ''ValueError'' ''unparsable date'')
           | Some ymd \<Rightarrow>
               Inr (setitem (setitem df ''year'' (map (\<lambda>d. Num (real (fst d))) ymd))
                      ''month'' (map (\<lambda>d. Num (real (fst (snd d)))) ymd))))"

text \<open>
  Modelled from the spec: the Column Pruner on one batch, for \<^verbatim>\<open>drop_unused_columns\<close>
  of the missing \<^verbatim>\<open>feature_engineering.py\<close>. Section 4.4: "removes columns defined as
  leakage or non-feature columns ... Unknown/absent target columns to drop are ignored
  rather than raising". Which columns those are is the parameter \<open>leakage\<close>.
\<close>

definition spec_prune :: "string list \<Rightarrow> frame \<Rightarrow> frame" where
  "spec_prune leakage df = df\<lparr>cols := filter (\<lambda>cv. fst cv \<notin> set leakage) (cols df)\<rparr>"

text \<open>
  Modelled from the spec: \<^verbatim>\<open>drop_unused_columns\<close> of the missing
  \<^verbatim>\<open>feature_engineering.py\<close>, which line 107 calls on two batches and which returns
  two: the Column Pruner of section 4.4 on each.
\<close>

definition spec_drop_unused_columns :: "string list \<Rightarrow> frame \<Rightarrow> frame \<Rightarrow> error + (frame \<times> frame)" where
  "spec_drop_unused_columns leakage a b = Inr (spec_prune leakage a, spec_prune leakage b)"

text \<open>
  Modelled from the spec: the five missing helpers together, as \<^verbatim>\<open>inference.py\<close>
  imports them.
\<close>

definition spec_helpers :: "((string \<times> cell) list \<Rightarrow> bool) \<Rightarrow> string list \<Rightarrow> helpers" where
  "spec_helpers acceptable leakage =
     \<lparr>clean_and_merge = spec_clean_and_merge,
      drop_duplicates = spec_drop_duplicates,
      remove_outliers = spec_remove_outliers acceptable,
      add_date_features = spec_add_date_features,
      drop_unused_columns = spec_drop_unused_columns leakage\<rparr>"

text \<open>The record and the training schema of the round trip of section 8.\<close>

definition scenario_record :: json_record where
  "scenario_record =
     [(''date'', Str ''2024-05-01''), (''bedrooms'', Num 3), (''bathrooms'', Num 2),
      (''sqft_living'', Num 2000), (''zipcode'', Str ''98101'')]"

definition scenario_schema :: "string list" where
  "scenario_schema = [''bedrooms'', ''bathrooms'', ''sqft_living'', ''zipcode_freq'', ''year'', ''month'']"

section \<open>A concrete deployment\<close>

text \<open>
  For the concrete runs below: a file system with a model that prices every row at
  450000, a frequency encoder that knows one zipcode and a target encoder, under the
  default paths of the settings; a request of two records; and the frame
  \<^verbatim>\<open>pd.DataFrame\<close> builds from it.
\<close>

definition example_fs :: filesystem where
  "example_fs p =
     (if p = ''models/xgb_best_model.pkl''
      then Some (File (Inr (Model (\<lambda>X. Inr (replicate (nrows X) (Num 450000)))))
                      (Inl (Raised ''ParserError'' [])))
      else if p = ''models/freq_encoder.pkl''
      then Some (File (Inr (FreqMap [Str ''98101'' \<mapsto> Num (7 / 100)]))
                      (Inl (Raised ''ParserError'' [])))
      else if p = ''models/target_encoder.pkl''
      then Some (File (Inr (TargetEncoder (\<lambda>cs. Inr (map (\<lambda>c. Num 480000) cs))))
                      (Inl (Raised ''ParserError'' [])))
      else None)"

definition example_settings :: settings where
  "example_settings =
     \<lparr>model_path = ''models/xgb_best_model.pkl'',
      freq_encoder_path = ''models/freq_encoder.pkl'',
      target_encoder_path = ''models/target_encoder.pkl''\<rparr>"

definition example_data :: "json_record list" where
  "example_data =
     [[(''date'', Str ''2024-05-01''), (''price'', Num 500000), (''bedrooms'', Num 3),
       (''zipcode'', Str ''98101''), (''city_full'', Str ''Seattle'')],
      [(''date'', Str ''2024-06-01''), (''price'', Num 600000), (''bedrooms'', Num 4),
       (''zipcode'', Str ''99999''), (''city_full'', Str ''Tacoma'')]]"

definition example_batch :: frame where
  "example_batch =
     \<lparr>nrows = 2,
      cols = [(''date'', [Str ''2024-05-01'', Str ''2024-06-01'']),
              (''price'', [Num 500000, Num 600000]),
              (''bedrooms'', [Num 3, Num 4]),
              (''zipcode'', [Str ''98101'', Str ''99999'']),
              (''city_full'', [Str ''Seattle'', Str ''Tacoma''])]\<rparr>"

definition example_run :: "string list option \<Rightarrow> frame comp" where
  "example_run schema =
     predict plain_helpers example_fs schema example_batch
       ''models/xgb_best_model.pkl'' ''models/freq_encoder.pkl'' ''models/target_encoder.pkl''"

text \<open>
  A deployment whose model refuses a matrix without rows, and helpers whose outlier
  removal finds every row an outlier.
\<close>

definition refusing_fs :: filesystem where
  "refusing_fs p =
     (if p = ''models/xgb_best_model.pkl''
      then Some (File (Inr (Model (\<lambda>X. if nrows X = 0
                                         then Inl (Raised ''ValueError'' ''Found array with 0 sample(s)'')
                                         else Inr (replicate (nrows X) (Num 450000)))))
                      (Inl (Raised ''ParserError'' [])))
      else None)"

definition strict_helpers :: helpers where
  "strict_helpers =
     plain_helpers\<lparr>remove_outliers :=
       (\<lambda>df. Inr (df\<lparr>nrows := 0, cols := map (\<lambda>cv. (fst cv, [])) (cols df)\<rparr>))\<rparr>"

section \<open>Facts about runs\<close>

lemma bind_ret [simp]: "bind (ret x) f = f x"
  by (simp add: bind_def ret_def split: prod.splits)

lemma bind_lift_Inr [simp]: "bind (lift (Inr x)) f = f x"
  by (simp add: bind_def lift_def split: prod.splits)

lemma bind_lift_Inl [simp]: "bind (lift (Inl e)) f = ([], Inl e)"
  by (simp add: bind_def lift_def)

lemma bind_call_Inr [simp]:
  "bind (call p n a (Inr x)) f = (Call p n a # fst (f x), snd (f x))"
  by (simp add: bind_def call_def split: prod.splits)

lemma bind_call_Inl [simp]: "bind (call p n a (Inl e)) f = ([Call p n a], Inl e)"
  by (simp add: bind_def call_def)

lemma bind_log [simp]: "bind (log p l m) f = (Log p l m # fst (f ()), snd (f ()))"
  by (simp add: bind_def log_def split: prod.splits)

lemma bind_nil [simp]: "bind ([], Inr x) f = f x"
  by (simp add: bind_def split: prod.splits)

text \<open>For concrete runs: the continuation is evaluated once.\<close>

lemma bind_pair_Inr: "bind (t, Inr x) f = (case f x of (t', r) \<Rightarrow> (t @ t', r))"
  by (simp add: bind_def)

lemma bind_pair_Inl: "bind (t, Inl e) f = (t, Inl e)"
  by (simp add: bind_def)

lemmas run_defs =
  bind_pair_Inr bind_pair_Inl call_def log_def ret_def lift_def raise_def
  predict_def engineer_def score_def preprocess_def date_features_def
  frequency_encoding_def target_encoding_def drop_leakage_def separate_actuals_def
  align_schema_def load_and_predict_def build_output_def model_predict_def try_except_def
  transform_def exists_def load_def columns_def getitem_def series_map_def fillna_def
  setitem_def setitem_values_def drop_columns_def reindex_def

lemma fst_ret [simp]: "fst (ret x) = []"
  by (simp add: ret_def)

lemma snd_ret [simp]: "snd (ret x) = Inr x"
  by (simp add: ret_def)

lemma fst_bind:
  "fst (bind m f) = fst m @ (case snd m of Inl e \<Rightarrow> [] | Inr x \<Rightarrow> fst (f x))"
  by (simp add: bind_def split: prod.splits sum.splits)

lemma snd_bind:
  "snd (bind m f) = (case snd m of Inl e \<Rightarrow> Inl e | Inr x \<Rightarrow> snd (f x))"
  by (simp add: bind_def split: prod.splits sum.splits)


lemma in_columns_iff: "c \<in> set (columns df) \<longleftrightarrow> map_of (cols df) c \<noteq> None"
  by (simp add: columns_def map_of_eq_None_iff)

lemma map_of_reindexed:
  "map_of (map (\<lambda>c. (c, g c)) S) c = (if c \<in> set S then Some (g c) else None)"
  by (induction S) auto

lemma map_of_assign: "map_of (assign c v ps) k = (if k = c then Some v else map_of ps k)"
  by (induction ps) auto

lemma map_of_filter_names:
  "map_of (filter (\<lambda>cv. fst cv \<notin> N) ps) k = (if k \<in> N then None else map_of ps k)"
  by (induction ps) auto

lemma map_of_filter_name:
  "map_of (filter (\<lambda>cv. fst cv \<noteq> n) ps) k = (if k = n then None else map_of ps k)"
  by (induction ps) auto


section \<open>Source order of the events\<close>

lemma runs_in_bind:
  assumes "runs_in a b m" and "\<And>x. runs_in c d (f x)" and "a \<le> c" and "b \<le> c" and "b \<le> d"
  shows "runs_in a d (bind m f)"
proof (cases "snd m")
  case (Inl e)
  with assms(1,5) show ?thesis
    by (fastforce simp: runs_in_def fst_bind)
next
  case (Inr x)
  with assms(1) assms(2) [of x] assms(3,4,5) show ?thesis
    by (fastforce simp: runs_in_def fst_bind sorted_append)
qed

lemma runs_in_ret [simp]: "runs_in a b (ret x)"
  by (simp add: runs_in_def)

lemma runs_in_preprocess: "runs_in 81 84 (preprocess h df)"
  by (auto simp: preprocess_def runs_in_def bind_def call_def log_def ret_def
      split: sum.splits prod.splits)

lemma runs_in_date_features: "runs_in 88 89 (date_features h df)"
  by (auto simp: date_features_def runs_in_def bind_def call_def log_def ret_def
      split: sum.splits prod.splits)

lemma runs_in_frequency_encoding: "runs_in 93 97 (frequency_encoding fs p df)"
  by (auto simp: frequency_encoding_def runs_in_def bind_def call_def log_def ret_def lift_def
      split: sum.splits prod.splits)

lemma runs_in_target_encoding: "runs_in 100 104 (target_encoding fs p df)"
  by (auto simp: target_encoding_def runs_in_def bind_def call_def log_def ret_def lift_def
      split: sum.splits prod.splits)

lemma runs_in_drop_leakage: "runs_in 107 107 (drop_leakage h df)"
  by (auto simp: drop_leakage_def runs_in_def bind_def call_def log_def ret_def
      split: sum.splits prod.splits)

lemma runs_in_separate_actuals: "runs_in 112 113 (separate_actuals df)"
  by (auto simp: separate_actuals_def runs_in_def bind_def call_def log_def ret_def lift_def
      split: sum.splits prod.splits)

lemma runs_in_align_schema: "runs_in 117 118 (align_schema S df)"
  by (auto simp: align_schema_def runs_in_def bind_def call_def log_def ret_def
      split: sum.splits prod.splits option.splits)

lemma runs_in_load_and_predict: "runs_in 125 132 (load_and_predict fs mp df)"
  by (auto simp: load_and_predict_def model_predict_def raise_named_def raise_def try_except_def
      runs_in_def bind_def call_def log_def ret_def
      split: sum.splits prod.splits artifact.splits if_splits)

lemma runs_in_build_output: "runs_in 136 141 (build_output df preds y)"
  by (auto simp: build_output_def runs_in_def bind_def call_def log_def ret_def lift_def
      split: sum.splits prod.splits option.splits)

lemma runs_in_engineer: "runs_in 81 107 (engineer h fs df fp tp)"
  unfolding engineer_def
  by (rule runs_in_bind [OF runs_in_preprocess, where c = 88] 
      runs_in_bind [OF runs_in_date_features, where c = 93]
      runs_in_bind [OF runs_in_frequency_encoding, where c = 100]
      runs_in_bind [OF runs_in_target_encoding, where c = 107]
      runs_in_drop_leakage | simp)+





















section \<open>What reaches the model\<close>

lemma separate_actuals_frame:
  "separate_actuals d = (t, Inr (y, X)) \<Longrightarrow>
     X = d\<lparr>cols := filter (\<lambda>cv. fst cv \<noteq> ''price'') (cols d)\<rparr>"
proof (cases "''price'' \<in> set (columns d)")
  case True
  assume "separate_actuals d = (t, Inr (y, X))"
  with True show ?thesis
    by (auto simp: separate_actuals_def getitem_def drop_columns_def ret_def in_columns_iff
        split: option.splits)
next
  case False
  then have "filter (\<lambda>cv. fst cv \<noteq> ''price'') (cols d) = cols d"
    by (force simp: columns_def filter_id_conv)
  moreover assume "separate_actuals d = (t, Inr (y, X))"
  ultimately show ?thesis using False
    by (simp add: separate_actuals_def ret_def)
qed

lemma model_inputs_append [simp]: "model_inputs (a @ b) = model_inputs a @ model_inputs b"
  by (induction a rule: model_inputs.induct) auto

lemma model_inputs_load_and_predict:
  "set (model_inputs (fst (load_and_predict fs mp X))) \<subseteq> {X}"
  by (auto simp: load_and_predict_def model_predict_def try_except_def raise_named_def raise_def
      bind_def call_def log_def ret_def
      split: sum.splits prod.splits artifact.splits if_splits)

lemma no_model_inputs:
  "runs_in lo hi m \<Longrightarrow> hi < 126 \<or> 126 < lo \<Longrightarrow> model_inputs (fst m) = []"
proof -
  have "\<forall>e \<in> set t. line_of e \<noteq> 126 \<Longrightarrow> model_inputs t = []" for t
    by (induction t rule: model_inputs.induct) auto
  then show "runs_in lo hi m \<Longrightarrow> hi < 126 \<or> 126 < lo \<Longrightarrow> model_inputs (fst m) = []"
    by (fastforce simp: runs_in_def)
qed

lemma model_inputs_predict:
  assumes "X \<in> set (model_inputs (fst (predict h fs S input mp fp tp)))"
  shows "\<exists>t pruned t' y d t''. engineer h fs input fp tp = (t, Inr pruned)
           \<and> separate_actuals pruned = (t', Inr (y, d)) \<and> align_schema S d = (t'', Inr X)"
proof -
  obtain t1 r1 where e: "engineer h fs input fp tp = (t1, r1)" by (cases "engineer h fs input fp tp")
  have m1: "model_inputs t1 = []"
    using no_model_inputs [OF runs_in_engineer, of h fs input fp tp] e by simp
  show ?thesis
  proof (cases r1)
    case (Inl err)
    with assms e m1 show ?thesis by (simp add: predict_def fst_bind log_def)
  next
    case (Inr pruned)
    obtain t2 r2 where s: "separate_actuals pruned = (t2, r2)" by (cases "separate_actuals pruned")
    have m2: "model_inputs t2 = []"
      using no_model_inputs [OF runs_in_separate_actuals, of pruned] s by simp
    show ?thesis
    proof (cases r2)
      case (Inl err)
      with assms e m1 Inr s m2 show ?thesis
        by (simp add: predict_def score_def fst_bind snd_bind log_def)
    next
      case yd: (Inr yd)
      obtain y d where yd': "yd = (y, d)" by (cases yd)
      obtain t3 r3 where a: "align_schema S d = (t3, r3)" by (cases "align_schema S d")
      have m3: "model_inputs t3 = []"
        using no_model_inputs [OF runs_in_align_schema, of S d] a by simp
      show ?thesis
      proof (cases r3)
        case (Inl err)
        with assms e m1 Inr s m2 yd yd' a m3 show ?thesis
          by (simp add: predict_def score_def fst_bind snd_bind log_def)
      next
        case X': (Inr X')
        have m4: "set (model_inputs (fst (load_and_predict fs mp X'))) \<subseteq> {X'}"
          by (rule model_inputs_load_and_predict)
        have m5: "model_inputs (fst (build_output X' preds y)) = []" for preds
          using no_model_inputs [OF runs_in_build_output, of X' preds y] by simp
        from assms e m1 Inr s m2 yd yd' a m3 X' m4 m5 have "X = X'"
          by (auto simp: predict_def score_def fst_bind snd_bind log_def split: sum.splits)
        with e Inr s yd yd' a X' show ?thesis by simp
      qed
    qed
  qed
qed

lemma no_aligner_events:
  "\<forall>e \<in> set (fst (predict h fs None input mp fp tp)). stage_at (line_of e) \<noteq> Some Schema_Aligner"
proof -
  have range: "line_of e < 115 \<or> 121 < line_of e"
    if "runs_in lo hi m" "hi < 115 \<or> 121 < lo" "e \<in> set (fst m)"
    for lo hi e and m :: "'a comp"
    using that by (fastforce simp: runs_in_def)
  have e: "line_of e < 115 \<or> 121 < line_of e"
    if "e \<in> set (fst (engineer h fs input fp tp))" for e
    using that by (intro range [OF runs_in_engineer]) simp_all
  have s: "line_of e < 115 \<or> 121 < line_of e"
    if "e \<in> set (fst (separate_actuals d))" for d e
    using that by (intro range [OF runs_in_separate_actuals]) simp_all
  have l: "line_of e < 115 \<or> 121 < line_of e"
    if "e \<in> set (fst (load_and_predict fs mp d))" for d e
    using that by (intro range [OF runs_in_load_and_predict]) simp_all
  have b: "line_of e < 115 \<or> 121 < line_of e"
    if "e \<in> set (fst (build_output d p y))" for d p y e
    using that by (intro range [OF runs_in_build_output]) simp_all
  have "\<forall>e \<in> set (fst (predict h fs None input mp fp tp)). line_of e < 115 \<or> 121 < line_of e"
    by (auto simp: predict_def score_def align_schema_def fst_bind snd_bind log_def
        split: sum.splits dest: e s l b)
  then show ?thesis
    by (auto simp: stage_at_def split: if_splits)
qed

section \<open>Runs that return\<close>









lemma empty_DataFrame:
  "empty (DataFrame data) \<longleftrightarrow> data = [] \<or> (\<forall>r \<in> set data. r = [])"
proof -
  have "first_seen ks = [] \<longleftrightarrow> ks = []" for ks
    by (simp add: first_seen_def)
  then show ?thesis
    by (auto simp: empty_def DataFrame_def)
qed

section \<open>Concrete runs\<close>

lemmas api_defs = predict_batch_def DataFrame_def first_seen_def empty_def example_settings_def

lemma example_DataFrame: "DataFrame example_data = example_batch"
  by (simp add: example_data_def example_batch_def DataFrame_def first_seen_def)

lemmas example_defs = example_run_def example_batch_def example_fs_def plain_helpers_def



lemma example_unaligned_inputs:
  "model_inputs (fst (example_run None))
   = [\<lparr>nrows = 2,
       cols = [(''date'', [Str ''2024-05-01'', Str ''2024-06-01'']),
               (''bedrooms'', [Num 3, Num 4]),
               (''zipcode_freq'', [Num (7 / 100), Num 0]),
               (''city_full_encoded'', [Num 480000, Num 480000])]\<rparr>]"
  by (simp add: example_defs run_defs numeral_2_eq_2)

lemma example_engineered:
  "snd (engineer plain_helpers example_fs example_batch
          ''models/freq_encoder.pkl'' ''models/target_encoder.pkl'')
   = Inr \<lparr>nrows = 2,
       cols = [(''date'', [Str ''2024-05-01'', Str ''2024-06-01'']),
               (''price'', [Num 500000, Num 600000]),
               (''bedrooms'', [Num 3, Num 4]),
               (''zipcode_freq'', [Num (7 / 100), Num 0]),
               (''city_full_encoded'', [Num 480000, Num 480000])]\<rparr>"
  by (simp add: example_defs run_defs numeral_2_eq_2)



section \<open>The round trip through the specified helpers\<close>

lemma parse_scenario_date: "parse_date ''2024-05-01'' = Some (2024, 5, 1)"
  by (simp add: parse_date_def digit_def)

lemma model_inputs_predict_eq:
  assumes e: "engineer h fs input fp tp = (t1, Inr pruned)"
    and s: "separate_actuals pruned = (t2, Inr (y, d))"
    and a: "align_schema S d = (t3, Inr X)"
    and m: "load fs mp = Inr (Model f)"
  shows "model_inputs (fst (predict h fs S input mp fp tp)) = [X]"
proof -
  have m1: "model_inputs t1 = []"
    using no_model_inputs [OF runs_in_engineer, of h fs input fp tp] e by simp
  have m2: "model_inputs t2 = []"
    using no_model_inputs [OF runs_in_separate_actuals, of pruned] s by simp
  have m3: "model_inputs t3 = []"
    using no_model_inputs [OF runs_in_align_schema, of S d] a by simp
  have m4: "model_inputs (fst (load_and_predict fs mp X)) = [X]"
    using m
    by (auto simp: load_and_predict_def try_except_def model_predict_def raise_named_def raise_def
        bind_def call_def log_def ret_def split: prod.splits sum.splits if_splits)
  have m5: "model_inputs (fst (build_output X preds y)) = []" for preds
    using no_model_inputs [OF runs_in_build_output, of X preds y] by simp
  show ?thesis
    using e s a m1 m2 m3 m4 m5
    by (auto simp: predict_def score_def fst_bind snd_bind log_def split: sum.splits)
qed

lemma nrows_spec_prune [simp]: "nrows (spec_prune L df) = nrows df"
  by (simp add: spec_prune_def)

lemma columns_spec_prune: "set (columns (spec_prune L df)) = set (columns df) - set L"
  by (auto simp: spec_prune_def columns_def)

lemma distinct_spec_prune: "distinct (columns df) \<Longrightarrow> distinct (columns (spec_prune L df))"
  by (simp add: spec_prune_def columns_def distinct_map_filter)

lemma map_of_spec_prune:
  "map_of (cols (spec_prune L df)) c = (if c \<in> set L then None else map_of (cols df) c)"
  by (simp add: spec_prune_def map_of_filter_names)

lemmas spec_defs =
  spec_helpers_def spec_clean_and_merge_def spec_drop_duplicates_def spec_remove_outliers_def
  spec_add_date_features_def spec_drop_unused_columns_def take_rows_def row_def date_of_cell_def

lemma scenario_engineered:
  assumes ok: "acceptable scenario_record"
    and enc: "fs fp = Some (File (Inr (FreqMap m)) hdr)" "m (Str ''98101'') = Some (Num (7 / 100))"
  shows "snd (engineer (spec_helpers acceptable leakage) fs (DataFrame [scenario_record]) fp tp)
         = Inr (spec_prune leakage
             \<lparr>nrows = 1,
              cols = [(''date'', [Str ''2024-05-01'']), (''bedrooms'', [Num 3]),
                      (''bathrooms'', [Num 2]), (''sqft_living'', [Num 2000]),
                      (''year'', [Num 2024]), (''month'', [Num 5]),
                      (''zipcode_freq'', [Num (7 / 100)])]\<rparr>)"
proof -
  have df: "DataFrame [scenario_record] =
      \<lparr>nrows = 1,
       cols = [(''date'', [Str ''2024-05-01'']), (''bedrooms'', [Num 3]),
               (''bathrooms'', [Num 2]), (''sqft_living'', [Num 2000]),
               (''zipcode'', [Str ''98101''])]\<rparr>"
    by (simp add: DataFrame_def first_seen_def scenario_record_def)
  have ok': "acceptable [(''date'', Str ''2024-05-01''), (''bedrooms'', Num 3), (''bathrooms'', Num 2),
      (''sqft_living'', Num 2000), (''zipcode'', Str ''98101'')]"
    using ok by (simp add: scenario_record_def)
  show ?thesis
    using ok' enc
    by (simp add: df spec_defs run_defs parse_scenario_date)
qed

section \<open>Feature Enricher\<close>

text \<open>
  C9. A batch without a \<^verbatim>\<open>date\<close> column goes through the Feature Enricher stage (lines
  86-89) as it is: whatever \<^verbatim>\<open>add_date_features\<close> does, it is not called, nothing is
  logged, nothing is raised, and the frame that comes out is the frame that went in.
\<close>

theorem date_features_without_date:
  "''date'' \<notin> set (columns df) \<Longrightarrow> date_features h df = ([], Inr df)"
  by (simp add: date_features_def ret_def)

theorem date_features_without_date_witness:
  "''date'' \<notin> set (columns \<lparr>nrows = 1, cols = [(''bedrooms'', [Num 3]), (''zipcode'', [Str ''98101''])]\<rparr>)
   \<and> date_features
        \<lparr>clean_and_merge = Inr, drop_duplicates = Inr, remove_outliers = Inr,
         add_date_features = (\<lambda>df. Inl (Raised ''KeyError'' ''date'')),
         drop_unused_columns = (\<lambda>a b. Inr (a, b))\<rparr>
        \<lparr>nrows = 1, cols = [(''bedrooms'', [Num 3]), (''zipcode'', [Str ''98101''])]\<rparr>
       = ([], Inr \<lparr>nrows = 1, cols = [(''bedrooms'', [Num 3]), (''zipcode'', [Str ''98101''])]\<rparr>)"
proof -
  have nodate:
    "''date'' \<notin> set (columns \<lparr>nrows = 1, cols = [(''bedrooms'', [Num 3]), (''zipcode'', [Str ''98101''])]\<rparr>)"
    by (simp add: columns_def)
  show ?thesis
    using nodate date_features_without_date [OF nodate] by simp
qed

section \<open>Schema Aligner\<close>

text \<open>
  C2. Alignment with a training schema \<open>S\<close> (lines 115-121) succeeds on every frame
  (whose labels are unique, as every pandas frame's the pipeline builds are) and yields
  a frame whose columns are exactly \<open>S\<close>, in the order of \<open>S\<close>, whatever columns the
  batch had: a column of \<open>S\<close> that the batch has is the batch's column, a column of
  \<open>S\<close> that the batch lacks is 0 in every row, and a column outside \<open>S\<close> is gone. The
  rows are untouched.
\<close>

theorem align_schema_exact:
  assumes "distinct (columns df)"
  shows "\<exists>out. snd (align_schema (Some S) df) = Inr out
           \<and> columns out = S \<and> length (columns out) = length S \<and> nrows out = nrows df
           \<and> (\<forall>c \<in> set S. getitem out c =
                 (if c \<in> set (columns df) then getitem df c
                  else Inr (replicate (nrows df) (Num 0))))
           \<and> (\<forall>c. c \<notin> set S \<longrightarrow> c \<notin> set (columns out))"
proof -
  let ?out = "df\<lparr>cols := map (\<lambda>c. (c, case map_of (cols df) c of Some v \<Rightarrow> v
                 | None \<Rightarrow> replicate (nrows df) (Num 0))) S\<rparr>"
  have r: "reindex df S (Num 0) = Inr ?out"
    using assms by (simp add: reindex_def)
  have 1: "snd (align_schema (Some S) df) = Inr ?out"
    by (simp add: align_schema_def r)
  have 2: "columns ?out = S"
    by (simp add: columns_def comp_def)
  have 3: "getitem ?out c = (if c \<in> set (columns df) then getitem df c
                  else Inr (replicate (nrows df) (Num 0)))" if "c \<in> set S" for c
  proof (cases "map_of (cols df) c")
    case None
    then have "c \<notin> set (columns df)" by (simp add: in_columns_iff)
    with None that show ?thesis by (simp add: getitem_def map_of_reindexed)
  next
    case (Some v)
    then have "c \<in> set (columns df)" by (simp add: in_columns_iff)
    with Some that show ?thesis by (simp add: getitem_def map_of_reindexed)
  qed
  show ?thesis
    using 1 2 3 by (intro exI [of _ ?out]) simp
qed

text \<open>
  An instance: the batch has a column of the schema (\<^verbatim>\<open>bedrooms\<close>), lacks one
  (\<^verbatim>\<open>lot_size\<close>) and has one the schema does not know (\<^verbatim>\<open>zipcode\<close>).
\<close>

theorem align_schema_exact_witness:
  "distinct (columns \<lparr>nrows = 2, cols = [(''zipcode'', [Str ''98101'', Str ''98102'']), (''bedrooms'', [Num 3, Num 4])]\<rparr>)
   \<and> snd (align_schema (Some [''bedrooms'', ''lot_size''])
        \<lparr>nrows = 2, cols = [(''zipcode'', [Str ''98101'', Str ''98102'']), (''bedrooms'', [Num 3, Num 4])]\<rparr>)
     = Inr \<lparr>nrows = 2, cols = [(''bedrooms'', [Num 3, Num 4]), (''lot_size'', [Num 0, Num 0])]\<rparr>"
proof -
  let ?df = "\<lparr>nrows = 2, cols = [(''zipcode'', [Str ''98101'', Str ''98102'']), (''bedrooms'', [Num 3, Num 4])]\<rparr>"
  have d: "distinct (columns ?df)"
    by (simp add: columns_def)
  obtain out where out: "snd (align_schema (Some [''bedrooms'', ''lot_size'']) ?df) = Inr out"
    and "columns out = [''bedrooms'', ''lot_size'']"
    using align_schema_exact [OF d, of "[''bedrooms'', ''lot_size'']"] by blast
  have "snd (align_schema (Some [''bedrooms'', ''lot_size'']) ?df)
      = Inr \<lparr>nrows = 2, cols = [(''bedrooms'', [Num 3, Num 4]), (''lot_size'', [Num 0, Num 0])]\<rparr>"
    by (simp add: align_schema_def reindex_def columns_def numeral_2_eq_2)
  with d out show ?thesis by simp
qed

section \<open>Frequency Encoder\<close>

text \<open>
  C5. When frequency encoding runs (lines 93-97: the encoder file holds a mapping and the
  batch has a \<^verbatim>\<open>zipcode\<close> column), it succeeds, and every row whose zipcode the
  mapping does not know gets \<^verbatim>\<open>zipcode_freq\<close> exactly 0; a row whose zipcode is known
  gets the mapped frequency. The \<^verbatim>\<open>zipcode\<close> column is gone from the result, the
  other columns and the rows are as they were.
\<close>

theorem frequency_encoding_unseen_zipcode:
  assumes art: "fs p = Some (File (Inr (FreqMap m)) hdr)"
    and zip: "getitem df ''zipcode'' = Inr zs"
  shows "\<exists>t out freq. frequency_encoding fs p df = (t, Inr out)
           \<and> ''zipcode'' \<notin> set (columns out)
           \<and> getitem out ''zipcode_freq'' = Inr freq
           \<and> length freq = length zs
           \<and> (\<forall>i < length zs. m (zs ! i) = None \<longrightarrow> freq ! i = Num 0)
           \<and> (\<forall>i < length zs. \<forall>w. m (zs ! i) = Some w \<and> w \<noteq> NaN \<longrightarrow> freq ! i = w)
           \<and> nrows out = nrows df
           \<and> (\<forall>c. c \<noteq> ''zipcode'' \<and> c \<noteq> ''zipcode_freq'' \<longrightarrow> getitem out c = getitem df c)"
proof -
  let ?freq = "fillna (map (\<lambda>v. case m v of None \<Rightarrow> NaN | Some w \<Rightarrow> w) zs) (Num 0)"
  let ?out = "df\<lparr>cols := filter (\<lambda>cv. fst cv \<notin> set [''zipcode''])
                 (assign ''zipcode_freq'' ?freq (cols df))\<rparr>"
  have incol: "''zipcode'' \<in> set (columns df)"
    using zip by (auto simp: getitem_def in_columns_iff split: option.splits)
  have run: "frequency_encoding fs p df =
      ([Call (Inference 93) ''exists'' [], Call (Inference 94) ''load'' [],
        Call (Inference 95) ''map'' [], Call (Inference 95) ''fillna'' [],
        Call (Inference 96) ''drop'' [setitem df ''zipcode_freq'' ?freq],
        Log (Inference 97) INFO ''Frequency encoding applied''], Inr ?out)"
    using art zip incol
    by (simp add: frequency_encoding_def exists_def load_def series_map_def drop_columns_def
        setitem_def ret_def)
  have 1: "''zipcode'' \<notin> set (columns ?out)"
    by (auto simp: columns_def)
  have 2: "getitem ?out ''zipcode_freq'' = Inr ?freq"
    by (simp add: getitem_def map_of_filter_name map_of_assign)
  have 3: "length ?freq = length zs"
    by (simp add: fillna_def)
  have 4: "?freq ! i = Num 0" if "i < length zs" "m (zs ! i) = None" for i
    using that by (simp add: fillna_def)
  have 5: "?freq ! i = w" if "i < length zs" "m (zs ! i) = Some w" "w \<noteq> NaN" for i w
    using that by (simp add: fillna_def)
  have 6: "getitem ?out c = getitem df c" if "c \<noteq> ''zipcode''" "c \<noteq> ''zipcode_freq''" for c
    using that by (simp add: getitem_def map_of_filter_name map_of_assign)
  show ?thesis
    using run 1 2 3 4 5 6 by (intro exI [of _ ?out] exI [of _ ?freq] exI) simp
qed

theorem frequency_encoding_unseen_zipcode_witness:
  "example_fs ''models/freq_encoder.pkl''
     = Some (File (Inr (FreqMap [Str ''98101'' \<mapsto> Num (7 / 100)])) (Inl (Raised ''ParserError'' [])))
   \<and> getitem example_batch ''zipcode'' = Inr [Str ''98101'', Str ''99999'']
   \<and> [Str ''98101'' \<mapsto> Num (7 / 100)] (Str ''99999'') = None
   \<and> getitem (projr (snd (frequency_encoding example_fs ''models/freq_encoder.pkl'' example_batch)))
        ''zipcode_freq'' = Inr [Num (7 / 100), Num 0]
   \<and> ''zipcode'' \<notin> set (columns
        (projr (snd (frequency_encoding example_fs ''models/freq_encoder.pkl'' example_batch))))"
proof -
  have a: "example_fs ''models/freq_encoder.pkl''
     = Some (File (Inr (FreqMap [Str ''98101'' \<mapsto> Num (7 / 100)])) (Inl (Raised ''ParserError'' [])))"
    by (simp add: example_fs_def)
  have z: "getitem example_batch ''zipcode'' = Inr [Str ''98101'', Str ''99999'']"
    by (simp add: example_batch_def getitem_def)
  from frequency_encoding_unseen_zipcode
         [where fs = example_fs and p = "''models/freq_encoder.pkl''"
            and m = "[Str ''98101'' \<mapsto> Num (7 / 100)]" and df = example_batch, OF a z]
  obtain t out freq where
    run: "frequency_encoding example_fs ''models/freq_encoder.pkl'' example_batch = (t, Inr out)"
    and nozip: "''zipcode'' \<notin> set (columns out)"
    and freq: "getitem out ''zipcode_freq'' = Inr freq" "length freq = 2"
    and unseen: "\<forall>i < 2. [Str ''98101'' \<mapsto> Num (7 / 100)] ([Str ''98101'', Str ''99999''] ! i) = None
                   \<longrightarrow> freq ! i = Num 0"
    and seen: "\<forall>i < 2. \<forall>w. [Str ''98101'' \<mapsto> Num (7 / 100)] ([Str ''98101'', Str ''99999''] ! i) = Some w
                   \<and> w \<noteq> NaN \<longrightarrow> freq ! i = w"
    by auto
  from unseen have "freq ! 1 = Num 0" by simp
  moreover from seen have "freq ! 0 = Num (7 / 100)" by simp
  ultimately have "freq = [Num (7 / 100), Num 0]"
    using freq(2) by (cases freq; cases "tl freq") auto
  with a z run nozip freq show ?thesis by simp
qed

section \<open>Order of the stages\<close>



section \<open>Encoders that do not apply\<close>

text \<open>
  C6. Each encoder stage is guarded (lines 93 and 100): when its encoder file is not on
  disk, or the batch has no \<^verbatim>\<open>zipcode\<close> (frequency encoder) or \<^verbatim>\<open>city_full\<close> (target
  encoder) column, the stage only probes the path, returns the batch as it is, logs
  nothing and raises nothing. The artifact is loaded, that is the stage applies, exactly
  when the file is there and the batch has the column.
\<close>

theorem encoders_skip_silently:
  "(fs fp = None \<or> ''zipcode'' \<notin> set (columns df) \<longrightarrow>
      frequency_encoding fs fp df = ([Call (Inference 93) ''exists'' []], Inr df))
   \<and> (fs tp = None \<or> ''city_full'' \<notin> set (columns df) \<longrightarrow>
      target_encoding fs tp df = ([Call (Inference 100) ''exists'' []], Inr df))
   \<and> (Call (Inference 94) ''load'' [] \<in> set (fst (frequency_encoding fs fp df))
        \<longleftrightarrow> fs fp \<noteq> None \<and> ''zipcode'' \<in> set (columns df))
   \<and> (Call (Inference 101) ''load'' [] \<in> set (fst (target_encoding fs tp df))
        \<longleftrightarrow> fs tp \<noteq> None \<and> ''city_full'' \<in> set (columns df))"
proof -
  have 1: "frequency_encoding fs fp df = ([Call (Inference 93) ''exists'' []], Inr df)"
    if "fs fp = None \<or> ''zipcode'' \<notin> set (columns df)"
    using that by (auto simp: frequency_encoding_def exists_def ret_def)
  have 2: "target_encoding fs tp df = ([Call (Inference 100) ''exists'' []], Inr df)"
    if "fs tp = None \<or> ''city_full'' \<notin> set (columns df)"
    using that by (auto simp: target_encoding_def exists_def ret_def)
  have 3: "Call (Inference 94) ''load'' [] \<in> set (fst (frequency_encoding fs fp df))"
    if "fs fp \<noteq> None" "''zipcode'' \<in> set (columns df)"
    using that by (simp add: frequency_encoding_def exists_def fst_bind call_def)
  have 4: "Call (Inference 101) ''load'' [] \<in> set (fst (target_encoding fs tp df))"
    if "fs tp \<noteq> None" "''city_full'' \<in> set (columns df)"
    using that by (simp add: target_encoding_def exists_def fst_bind call_def)
  have 5: "Call (Inference 94) ''load'' [] \<notin> set (fst (frequency_encoding fs fp df))"
    if "fs fp = None \<or> ''zipcode'' \<notin> set (columns df)"
    using 1 [OF that] by simp
  have 6: "Call (Inference 101) ''load'' [] \<notin> set (fst (target_encoding fs tp df))"
    if "fs tp = None \<or> ''city_full'' \<notin> set (columns df)"
    using 2 [OF that] by simp
  have 7: "Call (Inference 94) ''load'' [] \<in> set (fst (frequency_encoding fs fp df))
        \<longleftrightarrow> fs fp \<noteq> None \<and> ''zipcode'' \<in> set (columns df)"
  proof (cases "fs fp = None \<or> ''zipcode'' \<notin> set (columns df)")
    case True
    from 5 [OF True] True show ?thesis by simp
  next
    case False
    with 3 show ?thesis by simp
  qed
  have 8: "Call (Inference 101) ''load'' [] \<in> set (fst (target_encoding fs tp df))
        \<longleftrightarrow> fs tp \<noteq> None \<and> ''city_full'' \<in> set (columns df)"
  proof (cases "fs tp = None \<or> ''city_full'' \<notin> set (columns df)")
    case True
    from 6 [OF True] True show ?thesis by simp
  next
    case False
    with 4 show ?thesis by simp
  qed
  show ?thesis
  proof (intro conjI impI)
    show "frequency_encoding fs fp df = ([Call (Inference 93) ''exists'' []], Inr df)"
      if "fs fp = None \<or> ''zipcode'' \<notin> set (columns df)"
      using that by (rule 1)
    show "target_encoding fs tp df = ([Call (Inference 100) ''exists'' []], Inr df)"
      if "fs tp = None \<or> ''city_full'' \<notin> set (columns df)"
      using that by (rule 2)
  qed (rule 7, rule 8)
qed

theorem encoders_skip_silently_witness:
  "example_fs ''models/none.pkl'' = None
   \<and> frequency_encoding example_fs ''models/none.pkl'' example_batch
       = ([Call (Inference 93) ''exists'' []], Inr example_batch)
   \<and> ''city_full'' \<notin> set (columns \<lparr>nrows = 1, cols = [(''bedrooms'', [Num 3])]\<rparr>)
   \<and> target_encoding example_fs ''models/target_encoder.pkl'' \<lparr>nrows = 1, cols = [(''bedrooms'', [Num 3])]\<rparr>
       = ([Call (Inference 100) ''exists'' []], Inr \<lparr>nrows = 1, cols = [(''bedrooms'', [Num 3])]\<rparr>)
   \<and> Call (Inference 94) ''load'' []
       \<in> set (fst (frequency_encoding example_fs ''models/freq_encoder.pkl'' example_batch))
   \<and> Call (Inference 101) ''load'' []
       \<in> set (fst (target_encoding example_fs ''models/target_encoder.pkl'' example_batch))"
proof -
  have 1: "example_fs ''models/none.pkl'' = None"
    by (simp add: example_fs_def)
  have 2: "''city_full'' \<notin> set (columns \<lparr>nrows = 1, cols = [(''bedrooms'', [Num 3])]\<rparr>)"
    by (simp add: columns_def)
  have 3: "example_fs ''models/freq_encoder.pkl'' \<noteq> None \<and> ''zipcode'' \<in> set (columns example_batch)"
    by (simp add: example_fs_def example_batch_def columns_def)
  have 4: "example_fs ''models/target_encoder.pkl'' \<noteq> None
             \<and> ''city_full'' \<in> set (columns example_batch)"
    by (simp add: example_fs_def example_batch_def columns_def)
  show ?thesis
    using 1 2 3 4
      encoders_skip_silently [of example_fs "''models/none.pkl''" example_batch
        "''models/target_encoder.pkl''"]
      encoders_skip_silently [of example_fs "''models/freq_encoder.pkl''"
        "\<lparr>nrows = 1, cols = [(''bedrooms'', [Num 3])]\<rparr>" "''models/target_encoder.pkl''"]
      encoders_skip_silently [of example_fs "''models/freq_encoder.pkl''" example_batch
        "''models/target_encoder.pkl''"]
    by simp
qed

section \<open>No training schema\<close>

text \<open>
  C10. When the training features file is not there as the module is loaded, the
  training schema is None (lines 43-50). With no schema, the alignment step returns the
  frame as it is, without an event and without an error; no event of a call to
  \<^verbatim>\<open>predict\<close> belongs to the Schema Aligner; and every matrix that reaches the model is
  the frame the leakage drop returned, its columns in their order, less the \<^verbatim>\<open>price\<close>
  column that line 113 takes out: nothing filled, nothing else dropped, nothing reordered.
\<close>

theorem missing_training_features_skip_alignment:
  assumes "fs_at_import train_fe_path = None"
  shows "load_train_feature_columns fs_at_import train_fe_path = Inr None
    \<and> align_schema None df = ([], Inr df)
    \<and> (\<forall>e \<in> set (fst (predict h fs None input mp fp tp)).
          stage_at (line_of e) \<noteq> Some Schema_Aligner)
    \<and> (\<forall>X \<in> set (model_inputs (fst (predict h fs None input mp fp tp))).
          \<exists>t pruned. engineer h fs input fp tp = (t, Inr pruned)
             \<and> X = pruned\<lparr>cols := filter (\<lambda>cv. fst cv \<noteq> ''price'') (cols pruned)\<rparr>)"
proof -
  have 1: "load_train_feature_columns fs_at_import train_fe_path = Inr None"
    using assms by (simp add: load_train_feature_columns_def exists_def)
  have 2: "align_schema None df = ([], Inr df)"
    by (simp add: align_schema_def ret_def)
  have 4: "\<exists>t pruned. engineer h fs input fp tp = (t, Inr pruned)
             \<and> X = pruned\<lparr>cols := filter (\<lambda>cv. fst cv \<noteq> ''price'') (cols pruned)\<rparr>"
    if "X \<in> set (model_inputs (fst (predict h fs None input mp fp tp)))" for X
  proof -
    from model_inputs_predict [OF that] obtain t pruned t' y d t'' where
      e: "engineer h fs input fp tp = (t, Inr pruned)" and
      s: "separate_actuals pruned = (t', Inr (y, d))" and
      a: "align_schema None d = (t'', Inr X)" by blast
    from a have "X = d" by (simp add: align_schema_def ret_def)
    with separate_actuals_frame [OF s] e show ?thesis by blast
  qed
  show ?thesis
    using 1 2 no_aligner_events [of h fs input mp fp tp] 4 by blast
qed

theorem missing_training_features_skip_alignment_witness:
  "example_fs ''data/processed/feature_engineered_train.csv'' = None
   \<and> load_train_feature_columns example_fs ''data/processed/feature_engineered_train.csv'' = Inr None
   \<and> model_inputs (fst (example_run None))
       = [\<lparr>nrows = 2,
           cols = [(''date'', [Str ''2024-05-01'', Str ''2024-06-01'']),
                   (''bedrooms'', [Num 3, Num 4]),
                   (''zipcode_freq'', [Num (7 / 100), Num 0]),
                   (''city_full_encoded'', [Num 480000, Num 480000])]\<rparr>]
   \<and> snd (engineer plain_helpers example_fs example_batch
            ''models/freq_encoder.pkl'' ''models/target_encoder.pkl'')
       = Inr \<lparr>nrows = 2,
           cols = [(''date'', [Str ''2024-05-01'', Str ''2024-06-01'']),
                   (''price'', [Num 500000, Num 600000]),
                   (''bedrooms'', [Num 3, Num 4]),
                   (''zipcode_freq'', [Num (7 / 100), Num 0]),
                   (''city_full_encoded'', [Num 480000, Num 480000])]\<rparr>"
proof -
  have absent: "example_fs ''data/processed/feature_engineered_train.csv'' = None"
    by (simp add: example_fs_def)
  from missing_training_features_skip_alignment
         [where fs_at_import = example_fs
            and train_fe_path = "''data/processed/feature_engineered_train.csv''"
            and h = plain_helpers and fs = example_fs and input = example_batch, OF absent]
  have "load_train_feature_columns example_fs ''data/processed/feature_engineered_train.csv''
          = Inr None"
    by blast
  with absent example_unaligned_inputs example_engineered show ?thesis by simp
qed

section \<open>Failures of the Predictor\<close>

text \<open>
  C1. The handlers of lines 128-133 name \<^verbatim>\<open>ModelNotFoundError\<close> and
  \<^verbatim>\<open>PredictionError\<close>, but the module imports neither (its imports are the settings,
  the logger and the helpers), so evaluating either name raises NameError. When the model
  file is not there the call logs "Model file not found" and fails with NameError; when
  the model raises, it logs "Prediction failed" and fails with NameError; and no failure
  of the step is ever of the class ModelNotFoundError or PredictionError.
\<close>

theorem load_and_predict_raises_NameError:
  "(fs mp = None \<longrightarrow>
      load_and_predict fs mp df =
        ([Call (Inference 125) ''load'' [], Log (Inference 129) ERROR ''Model file not found''],
         Inl (Raised ''NameError''
               (''name '' @ [CHR 0x27] @ ''ModelNotFoundError'' @ [CHR 0x27] @ '' is not defined''))))
   \<and> (\<forall>f hdr e. fs mp = Some (File (Inr (Model f)) hdr) \<and> f df = Inl e
          \<and> is_Exception e \<and> \<not> is_FileNotFoundError e \<longrightarrow>
      load_and_predict fs mp df =
        ([Call (Inference 125) ''load'' [], Call (Inference 126) ''predict'' [df],
          Log (Inference 132) ERROR ''Prediction failed''],
         Inl (Raised ''NameError''
               (''name '' @ [CHR 0x27] @ ''PredictionError'' @ [CHR 0x27] @ '' is not defined''))))
   \<and> (\<forall>e. snd (load_and_predict fs mp df) = Inl e \<longrightarrow>
          exc_class e \<noteq> ''ModelNotFoundError'' \<and> exc_class e \<noteq> ''PredictionError'')"
proof -
  have 1: "load_and_predict fs mp df =
        ([Call (Inference 125) ''load'' [], Log (Inference 129) ERROR ''Model file not found''],
         Inl (Raised ''NameError''
               (''name '' @ [CHR 0x27] @ ''ModelNotFoundError'' @ [CHR 0x27] @ '' is not defined'')))"
    if "fs mp = None"
    using that
    by (simp add: load_and_predict_def load_def try_except_def is_FileNotFoundError_def
        raise_named_def inference_globals_def raise_def)
  have 2: "load_and_predict fs mp df =
        ([Call (Inference 125) ''load'' [], Call (Inference 126) ''predict'' [df],
          Log (Inference 132) ERROR ''Prediction failed''],
         Inl (Raised ''NameError''
               (''name '' @ [CHR 0x27] @ ''PredictionError'' @ [CHR 0x27] @ '' is not defined'')))"
    if "fs mp = Some (File (Inr (Model f)) hdr)" "f df = Inl e" "is_Exception e"
      "\<not> is_FileNotFoundError e" for f hdr e
    using that
    by (simp add: run_defs raise_named_def inference_globals_def)
  have 3: "exc_class e \<noteq> ''ModelNotFoundError'' \<and> exc_class e \<noteq> ''PredictionError''"
    if "snd (load_and_predict fs mp df) = Inl e" for e
    using that
    by (auto simp: load_and_predict_def try_except_def raise_named_def inference_globals_def
        raise_def is_Exception_def is_FileNotFoundError_def bind_def log_def
        split: prod.splits sum.splits if_splits)
  show ?thesis
    using 1 2 3 by blast
qed

theorem load_and_predict_raises_NameError_witness:
  "example_fs ''models/missing.pkl'' = None
   \<and> load_and_predict example_fs ''models/missing.pkl'' example_batch =
        ([Call (Inference 125) ''load'' [], Log (Inference 129) ERROR ''Model file not found''],
         Inl (Raised ''NameError''
               (''name '' @ [CHR 0x27] @ ''ModelNotFoundError'' @ [CHR 0x27] @ '' is not defined'')))
   \<and> is_Exception (Raised ''ValueError'' ''Found array with 0 sample(s)'')
   \<and> \<not> is_FileNotFoundError (Raised ''ValueError'' ''Found array with 0 sample(s)'')
   \<and> load_and_predict refusing_fs ''models/xgb_best_model.pkl'' \<lparr>nrows = 0, cols = []\<rparr> =
        ([Call (Inference 125) ''load'' [],
          Call (Inference 126) ''predict'' [\<lparr>nrows = 0, cols = []\<rparr>],
          Log (Inference 132) ERROR ''Prediction failed''],
         Inl (Raised ''NameError''
               (''name '' @ [CHR 0x27] @ ''PredictionError'' @ [CHR 0x27] @ '' is not defined'')))"
proof -
  have 1: "example_fs ''models/missing.pkl'' = None"
    by (simp add: example_fs_def)
  have 2: "refusing_fs ''models/xgb_best_model.pkl''
      = Some (File (Inr (Model (\<lambda>X. if nrows X = 0
                                         then Inl (Raised ''ValueError'' ''Found array with 0 sample(s)'')
                                         else Inr (replicate (nrows X) (Num 450000)))))
                      (Inl (Raised ''ParserError'' [])))"
    by (simp add: refusing_fs_def)
  have 3: "is_Exception (Raised ''ValueError'' ''Found array with 0 sample(s)'')"
    by (simp add: is_Exception_def)
  have 4: "\<not> is_FileNotFoundError (Raised ''ValueError'' ''Found array with 0 sample(s)'')"
    by (simp add: is_FileNotFoundError_def)
  show ?thesis
    using 1 2 3 4
      load_and_predict_raises_NameError [of example_fs "''models/missing.pkl''" example_batch]
      load_and_predict_raises_NameError [of refusing_fs "''models/xgb_best_model.pkl''"
        "\<lparr>nrows = 0, cols = []\<rparr>"]
    by simp
qed

section \<open>Predictions and actual prices\<close>




section \<open>Empty batches\<close>

text \<open>
  C3. The endpoint checks for an empty batch once, on the frame built from the request
  (line 166), after the check that the model file is there: when the model file is there,
  a request with no record, or whose records have no field, is answered with status 400
  and "No data provided", without a call to \<^verbatim>\<open>predict\<close> and so without a call to the
  model; and no other request is answered so.
\<close>

theorem empty_batch_rejected_at_ingress:
  assumes "fs (model_path s) \<noteq> None"
  shows "(empty (DataFrame data) \<longrightarrow>
            predict_batch h fs S pf s data =
              ([Log (Api 157) INFO ''Prediction request received'', Call (Api 159) ''exists'' [],
                Call (Api 165) ''DataFrame'' [], Log (Api 167) WARNING ''Empty data provided''],
               Inr (HTTPException 400 ''No data provided'')))
       \<and> (snd (predict_batch h fs S pf s data) = Inr (HTTPException 400 ''No data provided'')
            \<longleftrightarrow> empty (DataFrame data))
       \<and> (empty (DataFrame data) \<longleftrightarrow> data = [] \<or> (\<forall>r \<in> set data. r = []))"
proof -
  have 1: "predict_batch h fs S pf s data =
              ([Log (Api 157) INFO ''Prediction request received'', Call (Api 159) ''exists'' [],
                Call (Api 165) ''DataFrame'' [], Log (Api 167) WARNING ''Empty data provided''],
               Inr (HTTPException 400 ''No data provided''))" if "empty (DataFrame data)"
    using assms that by (simp add: predict_batch_def exists_def ret_def)
  have 2: "snd (predict_batch h fs S pf s data) \<noteq> Inr (HTTPException 400 ''No data provided'')"
    if "\<not> empty (DataFrame data)"
    using assms that
    by (auto simp: predict_batch_def exists_def try_except_def bind_def call_def log_def
        ret_def raise_def lift_def split: if_splits prod.splits sum.splits)
  have 3: "snd (predict_batch h fs S pf s data) = Inr (HTTPException 400 ''No data provided'')
            \<longleftrightarrow> empty (DataFrame data)"
  proof (cases "empty (DataFrame data)")
    case True
    with 1 [OF True] show ?thesis by simp
  next
    case False
    with 2 [OF False] show ?thesis by simp
  qed
  show ?thesis
    using 1 3 empty_DataFrame [of data] by (intro conjI impI) simp_all
qed


theorem empty_batch_rejected_at_ingress_witness:
  "example_fs (model_path example_settings) \<noteq> None
   \<and> empty (DataFrame [])
   \<and> predict_batch plain_helpers example_fs None (\<lambda>s. None) example_settings [] =
        ([Log (Api 157) INFO ''Prediction request received'', Call (Api 159) ''exists'' [],
          Call (Api 165) ''DataFrame'' [], Log (Api 167) WARNING ''Empty data provided''],
         Inr (HTTPException 400 ''No data provided''))"
proof -
  have there: "example_fs (model_path example_settings) \<noteq> None"
    by (simp add: example_fs_def example_settings_def)
  have e: "empty (DataFrame [])"
    by (simp add: empty_def DataFrame_def)
  from empty_batch_rejected_at_ingress
         [where fs = example_fs and s = example_settings and data = "[]" and h = plain_helpers
            and S = None and pf = "\<lambda>s. None", OF there] e there
  show ?thesis by simp
qed

text \<open>
  The claim as stated fails for a batch that the outlier removal empties: the request
  is not empty, so the endpoint calls \<^verbatim>\<open>predict\<close>, which has no check of its own and
  gives the model the matrix without rows. With a model that returns no prediction for
  no row the request succeeds with an empty list; with a model that refuses such a
  matrix the request fails with status 500 and "Prediction failed".
\<close>

theorem cleaned_out_batch_counterexample:
  "\<not> empty (DataFrame [[(''bedrooms'', Num 33)]])
   \<and> remove_outliers strict_helpers (DataFrame [[(''bedrooms'', Num 33)]])
       = Inr \<lparr>nrows = 0, cols = [(''bedrooms'', [])]\<rparr>
   \<and> model_inputs (fst (predict_batch strict_helpers example_fs None (\<lambda>s. None) example_settings
                          [[(''bedrooms'', Num 33)]]))
       = [\<lparr>nrows = 0, cols = [(''bedrooms'', [])]\<rparr>]
   \<and> snd (predict_batch strict_helpers example_fs None (\<lambda>s. None) example_settings
            [[(''bedrooms'', Num 33)]])
       = Inr (Predictions [] None)
   \<and> model_inputs (fst (predict_batch strict_helpers refusing_fs None (\<lambda>s. None) example_settings
                          [[(''bedrooms'', Num 33)]]))
       = [\<lparr>nrows = 0, cols = [(''bedrooms'', [])]\<rparr>]
   \<and> snd (predict_batch strict_helpers refusing_fs None (\<lambda>s. None) example_settings
            [[(''bedrooms'', Num 33)]])
       = Inr (HTTPException 500 ''Prediction failed'')"
  by (simp add: api_defs example_fs_def refusing_fs_def strict_helpers_def plain_helpers_def
      run_defs raise_named_def inference_globals_def is_Exception_def is_FileNotFoundError_def)

section \<open>Round trip\<close>

text \<open>
  C8. The record \<^verbatim>\<open>{date: "2024-05-01", bedrooms: 3, bathrooms: 2, sqft_living: 2000,
  zipcode: "98101"}\<close>, with a frequency encoder that maps \<^verbatim>\<open>"98101"\<close> to 0.07 and the
  training schema \<^verbatim>\<open>bedrooms, bathrooms, sqft_living, zipcode_freq, year, month\<close>,
  reaches the model as the one-row matrix with exactly these columns in this order and
  the values 3, 2, 2000, 0.07, 2024 and 5. The helpers are those of the specification,
  for every outlier policy that accepts the record and every choice of leakage columns
  that spares the six columns of the schema; whatever else the helpers derive or drop,
  the alignment removes.
\<close>

theorem round_trip_scenario:
  assumes ok: "acceptable scenario_record"
    and keep: "set leakage \<inter> set scenario_schema = {}"
    and enc: "fs fp = Some (File (Inr (FreqMap m)) hdr)" "m (Str ''98101'') = Some (Num (7 / 100))"
    and model: "fs mp = Some (File (Inr (Model f)) hdr')"
  shows "model_inputs (fst (predict (spec_helpers acceptable leakage) fs (Some scenario_schema)
                              (DataFrame [scenario_record]) mp fp tp))
         = [\<lparr>nrows = 1,
             cols = [(''bedrooms'', [Num 3]), (''bathrooms'', [Num 2]),
                     (''sqft_living'', [Num 2000]), (''zipcode_freq'', [Num (7 / 100)]),
                     (''year'', [Num 2024]), (''month'', [Num 5])]\<rparr>]"
proof -
  let ?E = "\<lparr>nrows = 1,
              cols = [(''date'', [Str ''2024-05-01'']), (''bedrooms'', [Num 3]),
                      (''bathrooms'', [Num 2]), (''sqft_living'', [Num 2000]),
                      (''year'', [Num 2024]), (''month'', [Num 5]),
                      (''zipcode_freq'', [Num (7 / 100)])]\<rparr>"
  let ?P = "spec_prune leakage ?E"
  let ?X = "\<lparr>nrows = 1,
             cols = [(''bedrooms'', [Num 3]), (''bathrooms'', [Num 2]),
                     (''sqft_living'', [Num 2000]), (''zipcode_freq'', [Num (7 / 100)]),
                     (''year'', [Num 2024]), (''month'', [Num 5])]\<rparr>"
  obtain t1 where e: "engineer (spec_helpers acceptable leakage) fs (DataFrame [scenario_record]) fp tp
                        = (t1, Inr ?P)"
    using scenario_engineered
            [where acceptable = acceptable and fs = fs and fp = fp and m = m
               and leakage = leakage and tp = tp, OF ok enc]
    by (cases "engineer (spec_helpers acceptable leakage) fs (DataFrame [scenario_record]) fp tp")
       simp
  have noprice: "''price'' \<notin> set (columns ?P)"
    by (simp add: columns_spec_prune) (simp add: columns_def)
  then have s: "separate_actuals ?P = ([], Inr (None, ?P))"
    by (simp add: separate_actuals_def ret_def)
  have kept: "''bedrooms'' \<notin> set leakage" "''bathrooms'' \<notin> set leakage"
    "''sqft_living'' \<notin> set leakage" "''zipcode_freq'' \<notin> set leakage"
    "''year'' \<notin> set leakage" "''month'' \<notin> set leakage"
    using keep by (auto simp: scenario_schema_def)
  have d: "distinct (columns ?P)"
    by (rule distinct_spec_prune) (simp add: columns_def)
  have r: "reindex ?P scenario_schema (Num 0) = Inr ?X"
    using d kept by (simp add: reindex_def scenario_schema_def map_of_spec_prune)
  have a: "align_schema (Some scenario_schema) ?P =
             ([Call (Inference 117) ''reindex'' [?P],
               Log (Inference 118) INFO ''Features aligned with training schema''], Inr ?X)"
    unfolding align_schema_def option.case r by (simp add: ret_def)
  have m: "load fs mp = Inr (Model f)"
    using model by (simp add: load_def)
  show ?thesis
    by (rule model_inputs_predict_eq [OF e s a m])
qed

theorem round_trip_scenario_witness:
  "(\<lambda>r. case map_of r ''bedrooms'' of Some (Num b) \<Rightarrow> b \<le> 10 | _ \<Rightarrow> True) scenario_record
   \<and> set [''date'', ''zipcode'', ''city_full''] \<inter> set scenario_schema = {}
   \<and> example_fs ''models/freq_encoder.pkl''
       = Some (File (Inr (FreqMap [Str ''98101'' \<mapsto> Num (7 / 100)])) (Inl (Raised ''ParserError'' [])))
   \<and> [Str ''98101'' \<mapsto> Num (7 / 100)] (Str ''98101'') = Some (Num (7 / 100))
   \<and> model_inputs (fst (predict
         (spec_helpers (\<lambda>r. case map_of r ''bedrooms'' of Some (Num b) \<Rightarrow> b \<le> 10 | _ \<Rightarrow> True)
            [''date'', ''zipcode'', ''city_full''])
         example_fs (Some scenario_schema) (DataFrame [scenario_record])
         ''models/xgb_best_model.pkl'' ''models/freq_encoder.pkl'' ''models/target_encoder.pkl''))
       = [\<lparr>nrows = 1,
           cols = [(''bedrooms'', [Num 3]), (''bathrooms'', [Num 2]),
                   (''sqft_living'', [Num 2000]), (''zipcode_freq'', [Num (7 / 100)]),
                   (''year'', [Num 2024]), (''month'', [Num 5])]\<rparr>]"
proof -
  let ?ok = "\<lambda>r. case map_of r ''bedrooms'' of Some (Num b) \<Rightarrow> b \<le> (10 :: real) | _ \<Rightarrow> True"
  have ok: "?ok scenario_record"
    by (simp add: scenario_record_def)
  have keep: "set [''date'', ''zipcode'', ''city_full''] \<inter> set scenario_schema = {}"
    by (simp add: scenario_schema_def)
  have enc: "example_fs ''models/freq_encoder.pkl''
       = Some (File (Inr (FreqMap [Str ''98101'' \<mapsto> Num (7 / 100)])) (Inl (Raised ''ParserError'' [])))"
    by (simp add: example_fs_def)
  have hit: "[Str ''98101'' \<mapsto> Num (7 / 100)] (Str ''98101'') = Some (Num (7 / 100))"
    by simp
  have model: "example_fs ''models/xgb_best_model.pkl''
       = Some (File (Inr (Model (\<lambda>X. Inr (replicate (nrows X) (Num 450000)))))
                      (Inl (Raised ''ParserError'' [])))"
    by (simp add: example_fs_def)
  from round_trip_scenario
         [where acceptable = ?ok and leakage = "[''date'', ''zipcode'', ''city_full'']"
            and fs = example_fs and fp = "''models/freq_encoder.pkl''"
            and m = "[Str ''98101'' \<mapsto> Num (7 / 100)]"
            and mp = "''models/xgb_best_model.pkl''" and tp = "''models/target_encoder.pkl''",
          OF ok keep enc hit model]
  show ?thesis
    using ok keep enc by simp
qed

end
